theory Spec2Isabelle
  imports Complex_Main "HOL-Library.Multiset"
begin

section \<open>Plant dashboard: the telemetry engine of \<^verbatim>\<open>src/App.js\<close>\<close>

text \<open>
  The component \<^verbatim>\<open>App\<close> keeps its state in React hooks and derives everything it shows
  from the array \<^verbatim>\<open>data\<close>.  The functions below follow the JavaScript line by line.
  JavaScript numbers are modelled by exact reals extended with \<^verbatim>\<open>NaN\<close> and the two
  infinities; rounding of IEEE doubles is not modelled.
\<close>

subsection \<open>JavaScript values\<close>

text \<open>
  A measurement as \<^verbatim>\<open>JSON.parse\<close> delivers it: the property is missing
  (\<^verbatim>\<open>undefined\<close> on access), \<^verbatim>\<open>null\<close>, or a number.
\<close>

datatype mval = Undefined | Null | Num real

datatype jsnum = NaN | NegInfinity | Fin real | PosInfinity

text \<open>\<^verbatim>\<open>ToNumber\<close>: \<^verbatim>\<open>undefined\<close> becomes \<^verbatim>\<open>NaN\<close>, \<^verbatim>\<open>null\<close> becomes \<^verbatim>\<open>+0\<close>.\<close>

fun to_number :: "mval \<Rightarrow> jsnum" where
  "to_number Undefined = NaN"
| "to_number Null = Fin 0"
| "to_number (Num r) = Fin r"

text \<open>The relational operator \<^verbatim>\<open><\<close> on numbers; any comparison with \<^verbatim>\<open>NaN\<close> is false.\<close>

fun num_lt :: "jsnum \<Rightarrow> jsnum \<Rightarrow> bool" where
  "num_lt NaN _ = False"
| "num_lt _ NaN = False"
| "num_lt (Fin a) (Fin b) = (a < b)"
| "num_lt NegInfinity NegInfinity = False"
| "num_lt NegInfinity _ = True"
| "num_lt _ NegInfinity = False"
| "num_lt PosInfinity _ = False"
| "num_lt _ PosInfinity = True"

fun num_add :: "jsnum \<Rightarrow> jsnum \<Rightarrow> jsnum" where
  "num_add NaN _ = NaN"
| "num_add _ NaN = NaN"
| "num_add (Fin a) (Fin b) = Fin (a + b)"
| "num_add PosInfinity NegInfinity = NaN"
| "num_add NegInfinity PosInfinity = NaN"
| "num_add PosInfinity _ = PosInfinity"
| "num_add _ PosInfinity = PosInfinity"
| "num_add NegInfinity _ = NegInfinity"
| "num_add _ NegInfinity = NegInfinity"

fun num_neg :: "jsnum \<Rightarrow> jsnum" where
  "num_neg NaN = NaN"
| "num_neg NegInfinity = PosInfinity"
| "num_neg (Fin a) = Fin (- a)"
| "num_neg PosInfinity = NegInfinity"

text \<open>\<^verbatim>\<open>a < b\<close>, \<^verbatim>\<open>a > b\<close>, \<^verbatim>\<open>a + b\<close> and \<^verbatim>\<open>a - b\<close> on measurements and numbers: both operands go
  through \<^verbatim>\<open>ToNumber\<close> (no operand here is a string).\<close>

definition js_lt :: "jsnum \<Rightarrow> jsnum \<Rightarrow> bool" where
  "js_lt a b = num_lt a b"

definition js_gt :: "jsnum \<Rightarrow> jsnum \<Rightarrow> bool" where
  "js_gt a b = num_lt b a"

definition js_plus :: "jsnum \<Rightarrow> jsnum \<Rightarrow> jsnum" where
  "js_plus a b = num_add a b"

definition js_minus :: "jsnum \<Rightarrow> jsnum \<Rightarrow> jsnum" where
  "js_minus a b = num_add a (num_neg b)"

subsection \<open>Readings and the component state\<close>

text \<open>
  One element of the payload.  \<^verbatim>\<open>timestamp\<close> is an integer number of milliseconds and
  \<^verbatim>\<open>device_id\<close> a string; each of the four measurements may be missing or \<^verbatim>\<open>null\<close>.
\<close>

record reading =
  timestamp :: int
  device_id :: string
  soil_moisture :: mval
  temperature :: mval
  humidity :: mval
  light_lux :: mval

text \<open>The property names that \<^verbatim>\<open>calculateStats\<close> and \<^verbatim>\<open>getTrend\<close> are called with.\<close>

datatype measurement = SoilMoisture | Temperature | Humidity | LightLux

fun get_field :: "measurement \<Rightarrow> reading \<Rightarrow> mval" where
  "get_field SoilMoisture d = soil_moisture d"
| "get_field Temperature d = temperature d"
| "get_field Humidity d = humidity d"
| "get_field LightLux d = light_lux d"

text \<open>The seven \<^verbatim>\<open>useState\<close> cells of \<^verbatim>\<open>App\<close>; \<^verbatim>\<open>lastUpdate\<close> holds a time in milliseconds.\<close>

record app_state =
  data :: "reading list"
  loading :: bool
  error :: "string option"
  lastUpdate :: "int option"
  darkMode :: bool
  showAlert :: bool
  alertMessage :: string

definition initial_state :: app_state where
  "initial_state =
     \<lparr>data = [], loading = True, error = None, lastUpdate = None,
      darkMode = False, showAlert = False, alertMessage = []\<rparr>"

subsection \<open>Strings\<close>

text \<open>\<^verbatim>\<open>Array.prototype.join\<close> on an array of strings.\<close>

fun join :: "string \<Rightarrow> string list \<Rightarrow> string" where
  "join sep [] = []"
| "join sep [x] = x"
| "join sep (x # y # ys) = x @ sep @ join sep (y # ys)"

subsection \<open>\<^verbatim>\<open>checkAlerts\<close>\<close>

text \<open>The four messages; the leading emoji are given by their UTF-8 bytes.\<close>

definition msg_soil_low :: string where
  "msg_soil_low = [CHR 0xF0, CHR 0x9F, CHR 0x9A, CHR 0xA8] @ '' Soil moisture is LOW! Plant needs water.''"

definition msg_temp_high :: string where
  "msg_temp_high = [CHR 0xF0, CHR 0x9F, CHR 0x94, CHR 0xA5] @ '' Temperature is HIGH!''"

definition msg_temp_low :: string where
  "msg_temp_low = [CHR 0xE2, CHR 0x9D, CHR 0x84, CHR 0xEF, CHR 0xB8, CHR 0x8F] @ '' Temperature is LOW!''"

definition msg_humidity_low :: string where
  "msg_humidity_low = [CHR 0xF0, CHR 0x9F, CHR 0x92, CHR 0xA7] @ '' Humidity is LOW!''"

text \<open>The local array \<^verbatim>\<open>alerts\<close> after the four \<^verbatim>\<open>if\<close> statements (lines 17 to 21).\<close>

definition alerts :: "reading \<Rightarrow> string list" where
  "alerts latest =
     (if js_lt (to_number (soil_moisture latest)) (Fin 30) then [msg_soil_low] else []) @
     (if js_gt (to_number (temperature latest)) (Fin 30) then [msg_temp_high] else []) @
     (if js_lt (to_number (temperature latest)) (Fin 15) then [msg_temp_low] else []) @
     (if js_lt (to_number (humidity latest)) (Fin 40) then [msg_humidity_low] else [])"

text \<open>\<^verbatim>\<open>checkAlerts(latest)\<close>; the argument is \<^verbatim>\<open>sortedData[0]\<close>, which is \<^verbatim>\<open>undefined\<close>
  (here \<open>None\<close>) for an empty array, and then the function returns at once.\<close>

definition checkAlerts :: "reading option \<Rightarrow> app_state \<Rightarrow> app_state" where
  "checkAlerts latest st =
     (case latest of
        None \<Rightarrow> st
      | Some r \<Rightarrow>
          (if length (alerts r) > 0
           then st\<lparr>alertMessage := join '' | '' (alerts r), showAlert := True\<rparr>
           else st\<lparr>showAlert := False\<rparr>))"

subsection \<open>Payloads and the host environment\<close>

text \<open>
  A decoded JSON value.  An array is an array of readings, as the endpoint delivers it; an
  object is its list of properties, each name once.
\<close>

datatype json =
  JNull
| JBool bool
| JNum real
| JStr string
| JArr "reading list"
| JObj "(string \<times> json) list"

text \<open>
  The functions of the host that the code calls and that are not part of the repository:
  \<^verbatim>\<open>JSON.parse\<close> (\<open>Inl\<close> carries the message of the \<^verbatim>\<open>SyntaxError\<close> it throws),
  the conversion of a finite number to a string, \<^verbatim>\<open>Number.prototype.toFixed\<close> on a finite
  number, and \<^verbatim>\<open>new Date(t).toLocaleString()\<close>.
\<close>

record runtime =
  json_parse :: "string \<Rightarrow> string + json"
  number_to_string :: "real \<Rightarrow> string"
  to_fixed :: "real \<Rightarrow> nat \<Rightarrow> string"
  to_locale_string :: "int \<Rightarrow> string"

text \<open>What \<^verbatim>\<open>await fetch(url)\<close> and \<^verbatim>\<open>await response.json()\<close> deliver: the fetch rejects with
  an error message, or there is a response with a status and the outcome of decoding it.\<close>

datatype fetch_outcome =
  Rejected string
| Responded nat "string + json"

text \<open>\<^verbatim>\<open>response.ok\<close>: the status is in the range 200 to 299.\<close>

definition response_ok :: "nat \<Rightarrow> bool" where
  "response_ok status = (200 \<le> status \<and> status \<le> 299)"

text \<open>The decimal digits of a status code, as the template literal of line 38 prints it.\<close>

fun show_nat :: "nat \<Rightarrow> string" where
  "show_nat n =
     (if n < 10 then [''0123456789'' ! n]
      else show_nat (n div 10) @ [''0123456789'' ! (n mod 10)])"

declare show_nat.simps [simp del]

definition http_error_message :: "nat \<Rightarrow> string" where
  "http_error_message status = ''HTTP error! status: '' @ show_nat status"

text \<open>\<^verbatim>\<open>json.body\<close>.  Reading a property of \<^verbatim>\<open>null\<close> throws a \<^verbatim>\<open>TypeError\<close> (the message is
  V8's); a number, a string and a boolean have no such property, which gives
  \<^verbatim>\<open>undefined\<close> (here \<open>None\<close>).\<close>

definition null_body_message :: string where
  "null_body_message = ''Cannot read properties of null (reading '' @ [CHR 0x27] @ ''body'' @ [CHR 0x27] @ '')''"

fun get_body :: "json \<Rightarrow> string + json option" where
  "get_body JNull = Inl null_body_message"
| "get_body (JObj props) = Inr (map_of props ''body'')"
| "get_body _ = Inr None"

text \<open>\<^verbatim>\<open>ToBoolean\<close>, for the test \<^verbatim>\<open>if (json.body)\<close>.\<close>

fun truthy :: "json option \<Rightarrow> bool" where
  "truthy None = False"
| "truthy (Some JNull) = False"
| "truthy (Some (JBool b)) = b"
| "truthy (Some (JNum r)) = (r \<noteq> 0)"
| "truthy (Some (JStr s)) = (s \<noteq> [])"
| "truthy (Some (JArr _)) = True"
| "truthy (Some (JObj _)) = True"

text \<open>\<^verbatim>\<open>ToString\<close>, which \<^verbatim>\<open>JSON.parse\<close> applies to its argument.\<close>

fun to_string :: "runtime \<Rightarrow> json \<Rightarrow> string" where
  "to_string rt JNull = ''null''"
| "to_string rt (JBool b) = (if b then ''true'' else ''false'')"
| "to_string rt (JNum r) = number_to_string rt r"
| "to_string rt (JStr s) = s"
| "to_string rt (JArr rs) = join '','' (map (\<lambda>_. ''[object Object]'') rs)"
| "to_string rt (JObj _) = ''[object Object]''"

subsection \<open>\<^verbatim>\<open>Array.prototype.sort\<close> with a comparator\<close>

text \<open>
  ECMAScript requires the sort to be stable.  The comparator of lines 44 and 52 is
  consistent, so the result is the one stable ordering, computed here by insertion from
  the right: an element goes before the first one it does not compare greater than.
\<close>

fun insert_by :: "('a \<Rightarrow> 'a \<Rightarrow> int) \<Rightarrow> 'a \<Rightarrow> 'a list \<Rightarrow> 'a list" where
  "insert_by cmp x [] = [x]"
| "insert_by cmp x (y # ys) =
     (if cmp x y \<le> 0 then x # y # ys else y # insert_by cmp x ys)"

definition array_sort :: "('a \<Rightarrow> 'a \<Rightarrow> int) \<Rightarrow> 'a list \<Rightarrow> 'a list" where
  "array_sort cmp xs = foldr (insert_by cmp) xs []"

text \<open>\<^verbatim>\<open>(a, b) => b.timestamp - a.timestamp\<close>\<close>

definition by_timestamp_desc :: "reading \<Rightarrow> reading \<Rightarrow> int" where
  "by_timestamp_desc a b = timestamp b - timestamp a"

text \<open>Descending order of time: index 0 is the newest reading.\<close>

abbreviation newer_first :: "reading \<Rightarrow> reading \<Rightarrow> bool" where
  "newer_first a b \<equiv> timestamp b \<le> timestamp a"

subsection \<open>\<^verbatim>\<open>fetchData\<close>\<close>

text \<open>\<^verbatim>\<open>sortedData[0]\<close>\<close>

fun first :: "'a list \<Rightarrow> 'a option" where
  "first [] = None"
| "first (x # _) = Some x"

text \<open>Lines 44 to 48, and again 52 to 56: sort, store, stamp, clear the error, check the
  alerts of the first element.  \<open>now\<close> is the clock at that moment.\<close>

definition ingest :: "int \<Rightarrow> reading list \<Rightarrow> app_state \<Rightarrow> app_state" where
  "ingest now arr st =
     (let sortedData = array_sort by_timestamp_desc arr
      in checkAlerts (first sortedData)
           (st\<lparr>data := sortedData, lastUpdate := Some now, error := None\<rparr>))"

text \<open>The \<^verbatim>\<open>try\<close> block: \<open>Inl\<close> is the message of the error thrown, \<open>Inr\<close> the state when
  the block ends normally.  Every \<^verbatim>\<open>throw\<close> happens before the first state update.\<close>

definition fetch_try :: "runtime \<Rightarrow> int \<Rightarrow> fetch_outcome \<Rightarrow> app_state \<Rightarrow> string + app_state" where
  "fetch_try rt now outcome st =
     (case outcome of
        Rejected msg \<Rightarrow> Inl msg
      | Responded status decoded \<Rightarrow>
          if \<not> response_ok status then Inl (http_error_message status)
          else (case decoded of
                  Inl msg \<Rightarrow> Inl msg
                | Inr (JArr arr) \<Rightarrow> Inr (ingest now arr st)
                | Inr js \<Rightarrow>
                    (case get_body js of
                       Inl msg \<Rightarrow> Inl msg
                     | Inr body \<Rightarrow>
                         if truthy body
                         then (case body of
                                 None \<Rightarrow> Inr st
                               | Some b \<Rightarrow>
                                   (case json_parse rt (to_string rt b) of
                                      Inl msg \<Rightarrow> Inl msg
                                    | Inr (JArr arr) \<Rightarrow> Inr (ingest now arr st)
                                    | Inr _ \<Rightarrow> Inr st))
                         else Inr st)))"

text \<open>The whole function: the \<^verbatim>\<open>catch\<close> stores the message, the \<^verbatim>\<open>finally\<close> clears
  \<^verbatim>\<open>loading\<close>.  Nothing is thrown to the caller.\<close>

definition fetchData :: "runtime \<Rightarrow> int \<Rightarrow> fetch_outcome \<Rightarrow> app_state \<Rightarrow> app_state" where
  "fetchData rt now outcome st =
     (case fetch_try rt now outcome st of
        Inl msg \<Rightarrow> st\<lparr>error := Some msg, loading := False\<rparr>
      | Inr st' \<Rightarrow> st'\<lparr>loading := False\<rparr>)"

text \<open>
  The effect (lines 67 to 71) calls \<^verbatim>\<open>fetchData\<close> at once and then every five seconds; a
  call touches no state until its awaits are over.  A run of the component is a list of
  events: a call of \<^verbatim>\<open>fetchData\<close> starts, or the call that started as number \<open>k\<close>
  gets its outcome at time \<open>now\<close> and runs to its end.
\<close>

datatype event = Dispatch | Complete nat int fetch_outcome

fun step :: "runtime \<Rightarrow> event \<Rightarrow> app_state \<Rightarrow> app_state" where
  "step rt Dispatch st = st"
| "step rt (Complete k now outcome) st = fetchData rt now outcome st"

definition run :: "runtime \<Rightarrow> event list \<Rightarrow> app_state \<Rightarrow> app_state" where
  "run rt evs st = fold (step rt) evs st"

subsection \<open>\<^verbatim>\<open>exportToCSV\<close>\<close>

definition headers :: "string list" where
  "headers =
     [''Timestamp'', ''Device ID'', ''Soil Moisture (%)'',
      ''Temperature ('' @ [CHR 0xC2, CHR 0xB0] @ ''C)'', ''Humidity (%)'', ''Light (lux)'']"

text \<open>How \<^verbatim>\<open>join\<close> prints an element of the row: \<^verbatim>\<open>undefined\<close> and \<^verbatim>\<open>null\<close> give the empty
  string, a number its \<^verbatim>\<open>ToString\<close>.\<close>

fun cell :: "runtime \<Rightarrow> mval \<Rightarrow> string" where
  "cell rt Undefined = []"
| "cell rt Null = []"
| "cell rt (Num r) = number_to_string rt r"

text \<open>The array of lines 79 to 85, before and after its \<^verbatim>\<open>join(',')\<close>.\<close>

definition csv_cells :: "runtime \<Rightarrow> reading \<Rightarrow> string list" where
  "csv_cells rt d =
     [to_locale_string rt (timestamp d), device_id d, cell rt (soil_moisture d),
      cell rt (temperature d), cell rt (humidity d), cell rt (light_lux d)]"

definition csv_row :: "runtime \<Rightarrow> reading \<Rightarrow> string" where
  "csv_row rt d = join '','' (csv_cells rt d)"

definition csvContent :: "runtime \<Rightarrow> reading list \<Rightarrow> string" where
  "csvContent rt dat = join [CHR 0x0A] (join '','' headers # map (csv_row rt) dat)"

text \<open>The file handed to the browser: the blob's text and type, and the name of the
  download.\<close>

record download =
  content :: string
  mime_type :: string
  filename :: string

text \<open>\<open>iso_now\<close> is \<^verbatim>\<open>new Date().toISOString()\<close>; \<^verbatim>\<open>split('T')[0]\<close> keeps what precedes the
  first \<^verbatim>\<open>T\<close>.  The function sets no state; \<open>None\<close> says that nothing is downloaded.\<close>

definition exportToCSV :: "runtime \<Rightarrow> string \<Rightarrow> app_state \<Rightarrow> app_state \<times> download option" where
  "exportToCSV rt iso_now st =
     (if length (data st) = 0 then (st, None)
      else (st, Some \<lparr>content = csvContent rt (data st), mime_type = ''text/csv'',
                      filename = ''plant-data-'' @ takeWhile (\<lambda>c. c \<noteq> CHR ''T'') iso_now @ ''.csv''\<rparr>))"


subsection \<open>\<^verbatim>\<open>calculateStats\<close>\<close>

text \<open>A property of the object returned: the number literal \<^verbatim>\<open>0\<close>, or the string that
  \<^verbatim>\<open>toFixed(1)\<close> gives.\<close>

datatype stat = Number real | Text string

record stats =
  min_stat :: stat
  max_stat :: stat
  avg_stat :: stat

text \<open>\<^verbatim>\<open>Math.min\<close> and \<^verbatim>\<open>Math.max\<close> of an argument list: \<^verbatim>\<open>Infinity\<close> and \<^verbatim>\<open>-Infinity\<close> when the
  list is empty, \<^verbatim>\<open>NaN\<close> as soon as one argument is.\<close>

definition num_min :: "jsnum \<Rightarrow> jsnum \<Rightarrow> jsnum" where
  "num_min a b = (if a = NaN \<or> b = NaN then NaN else if num_lt b a then b else a)"

definition num_max :: "jsnum \<Rightarrow> jsnum \<Rightarrow> jsnum" where
  "num_max a b = (if a = NaN \<or> b = NaN then NaN else if num_lt a b then b else a)"

definition math_min :: "jsnum list \<Rightarrow> jsnum" where
  "math_min vs = foldl num_min PosInfinity vs"

definition math_max :: "jsnum list \<Rightarrow> jsnum" where
  "math_max vs = foldl num_max NegInfinity vs"

text \<open>Division of a number by a length: \<^verbatim>\<open>0 / 0\<close> is \<^verbatim>\<open>NaN\<close>, another finite number over
  \<^verbatim>\<open>0\<close> is an infinity with its sign.\<close>

fun num_div_length :: "jsnum \<Rightarrow> nat \<Rightarrow> jsnum" where
  "num_div_length NaN n = NaN"
| "num_div_length PosInfinity n = PosInfinity"
| "num_div_length NegInfinity n = NegInfinity"
| "num_div_length (Fin a) n =
     (if n = 0 then (if a = 0 then NaN else if 0 < a then PosInfinity else NegInfinity)
      else Fin (a / real n))"

text \<open>\<^verbatim>\<open>x.toFixed(digits)\<close>\<close>

fun toFixed :: "runtime \<Rightarrow> jsnum \<Rightarrow> nat \<Rightarrow> string" where
  "toFixed rt NaN digits = ''NaN''"
| "toFixed rt PosInfinity digits = ''Infinity''"
| "toFixed rt NegInfinity digits = ''-Infinity''"
| "toFixed rt (Fin r) digits = to_fixed rt r digits"

text \<open>
  The sum and the mean below are exact, where the code adds and divides in binary64 and may
  differ in the last digits; and \<^verbatim>\<open>Math.min(...values)\<close> throws a \<^verbatim>\<open>RangeError\<close> when the
  array is too long for an argument list, a limit of the engine that is not modelled.
\<close>

definition calculateStats :: "runtime \<Rightarrow> measurement \<Rightarrow> app_state \<Rightarrow> stats" where
  "calculateStats rt field st =
     (if length (data st) = 0
      then \<lparr>min_stat = Number 0, max_stat = Number 0, avg_stat = Number 0\<rparr>
      else
        (let values = filter (\<lambda>v. v \<noteq> Null \<and> v \<noteq> Undefined) (map (get_field field) (data st))
         in \<lparr>min_stat = Text (toFixed rt (math_min (map to_number values)) 1),
             max_stat = Text (toFixed rt (math_max (map to_number values)) 1),
             avg_stat = Text (toFixed rt
                          (num_div_length (foldl js_plus (Fin 0) (map to_number values))
                             (length values)) 1)\<rparr>))"

subsection \<open>\<^verbatim>\<open>getTrend\<close>\<close>

text \<open>
  \<^verbatim>\<open>previous + 1\<close> and \<^verbatim>\<open>previous - 1\<close> are exact sums here, where the code rounds them to
  binary64: at the edge of the dead band (a latest value of 1.1 against a previous one of
  0.1) the code may answer \<^verbatim>\<open>stable\<close> where the exact sum gives \<^verbatim>\<open>up\<close>.
\<close>

definition getTrend :: "measurement \<Rightarrow> app_state \<Rightarrow> string" where
  "getTrend field st =
     (if length (data st) < 2 then ''stable''
      else
        (let latest = get_field field (data st ! 0);
             previous = get_field field (data st ! 1)
         in if js_gt (to_number latest) (js_plus (to_number previous) (Fin 1)) then ''up''
            else if js_lt (to_number latest) (js_minus (to_number previous) (Fin 1)) then ''down''
            else ''stable''))"

subsection \<open>The specification's tables, for comparison\<close>

text \<open>\<^verbatim>\<open>Array.isArray\<close>; \<open>fetch_try\<close> tests it by matching on \<open>JArr\<close>.\<close>

fun isArray :: "json \<Rightarrow> bool" where
  "isArray (JArr _) = True"
| "isArray _ = False"

text \<open>The alert table as the specification words it: a rule fires when its field is
  present, that is a number, and beyond the threshold.\<close>

fun present_below :: "mval \<Rightarrow> real \<Rightarrow> bool" where
  "present_below (Num v) t = (v < t)"
| "present_below _ t = False"

fun present_above :: "mval \<Rightarrow> real \<Rightarrow> bool" where
  "present_above (Num v) t = (t < v)"
| "present_above _ t = False"

definition spec_alerts :: "reading \<Rightarrow> string list" where
  "spec_alerts r =
     (if present_below (soil_moisture r) 30 then [msg_soil_low] else []) @
     (if present_above (temperature r) 30 then [msg_temp_high] else []) @
     (if present_below (temperature r) 15 then [msg_temp_low] else []) @
     (if present_below (humidity r) 40 then [msg_humidity_low] else [])"

text \<open>The trend as the specification words it: the dead band of one unit on the two
  newest readings, and \<^verbatim>\<open>stable\<close> when there are fewer than two or a value is absent.\<close>

definition spec_trend :: "measurement \<Rightarrow> reading list \<Rightarrow> string" where
  "spec_trend field rs =
     (case rs of
        r0 # r1 # _ \<Rightarrow>
          (case (get_field field r0, get_field field r1) of
             (Num a, Num b) \<Rightarrow>
               if b + 1 < a then ''up'' else if a < b - 1 then ''down'' else ''stable''
           | _ \<Rightarrow> ''stable'')
      | _ \<Rightarrow> ''stable'')"

text \<open>Reading the status back out of the message of line 38.\<close>

definition digit_value :: "char \<Rightarrow> nat" where
  "digit_value ch = of_char ch - 48"

definition read_nat :: "string \<Rightarrow> nat" where
  "read_nat s = foldl (\<lambda>acc ch. 10 * acc + digit_value ch) 0 s"

definition status_of_message :: "string \<Rightarrow> nat" where
  "status_of_message msg = read_nat (drop (length ''HTTP error! status: '') msg)"

subsection \<open>Example inputs\<close>

text \<open>A host for the examples.  Its \<^verbatim>\<open>JSON.parse\<close> and its printing of numbers agree with
  ECMAScript on the texts and numbers that the examples use; its dates are printed as the
  \<^verbatim>\<open>en-US\<close> locale prints the epoch.  No example calls its \<^verbatim>\<open>toFixed\<close>.\<close>

definition example_parse :: "string \<Rightarrow> string + json" where
  "example_parse s =
     (if s = ''[]'' then Inr (JArr [])
      else if s = ''5'' then Inr (JNum 5)
      else Inl ''Unexpected token o in JSON at position 0'')"

definition example_runtime :: runtime where
  "example_runtime =
     \<lparr>json_parse = example_parse,
      number_to_string =
        (\<lambda>r. if r = 25 then ''25'' else if r = 32 then ''32'' else if r = 35 then ''35''
              else if r = 50 then ''50'' else if r = 500 then ''500'' else ''0''),
      to_fixed = (\<lambda>r digits. ''0.0''),
      to_locale_string = (\<lambda>t. ''1/1/1970, 12:00:00 AM'')\<rparr>"

text \<open>The reading of the specification's alert scenario, a reading whose measurements are
  all \<^verbatim>\<open>null\<close>, one with a missing and a \<^verbatim>\<open>null\<close> measurement, and a newer one.\<close>

definition reading_scenario :: reading where
  "reading_scenario =
     \<lparr>timestamp = 100, device_id = ''d1'', soil_moisture = Num 25, temperature = Num 32,
      humidity = Num 35, light_lux = Num 500\<rparr>"

definition reading_nulls :: reading where
  "reading_nulls =
     \<lparr>timestamp = 100, device_id = ''d1'', soil_moisture = Null, temperature = Null,
      humidity = Null, light_lux = Null\<rparr>"

definition reading_gap :: reading where
  "reading_gap =
     \<lparr>timestamp = 100, device_id = ''d2'', soil_moisture = Undefined, temperature = Num 32,
      humidity = Null, light_lux = Num 500\<rparr>"

definition reading_later :: reading where
  "reading_later =
     \<lparr>timestamp = 200, device_id = ''d1'', soil_moisture = Num 50, temperature = Undefined,
      humidity = Undefined, light_lux = Undefined\<rparr>"

text \<open>The text of a payload's \<^verbatim>\<open>body\<close> that holds three of these readings, and a host that
  parses it as ECMAScript does and is the example host otherwise.\<close>

definition quoted :: "string \<Rightarrow> string" where
  "quoted s = [CHR 0x22] @ s @ [CHR 0x22]"

definition example_body_text :: string where
  "example_body_text =
     ''[{'' @ quoted ''timestamp'' @ '':100,'' @ quoted ''device_id'' @ '':'' @ quoted ''d1''
       @ '','' @ quoted ''soil_moisture'' @ '':25,'' @ quoted ''temperature'' @ '':32,''
       @ quoted ''humidity'' @ '':35,'' @ quoted ''light_lux'' @ '':500},{''
       @ quoted ''timestamp'' @ '':200,'' @ quoted ''device_id'' @ '':'' @ quoted ''d1''
       @ '','' @ quoted ''soil_moisture'' @ '':50},{''
       @ quoted ''timestamp'' @ '':100,'' @ quoted ''device_id'' @ '':'' @ quoted ''d2''
       @ '','' @ quoted ''temperature'' @ '':32,'' @ quoted ''humidity'' @ '':null,''
       @ quoted ''light_lux'' @ '':500}]''"

definition example_runtime_readings :: runtime where
  "example_runtime_readings =
     example_runtime\<lparr>json_parse :=
       (\<lambda>s. if s = example_body_text
             then Inr (JArr [reading_scenario, reading_later, reading_gap])
             else example_parse s)\<rparr>"

text \<open>A state after one successful cycle followed by a failed one.\<close>

definition example_state :: app_state where
  "example_state =
     \<lparr>data = [reading_scenario], loading = False, error = Some ''HTTP error! status: 500'',
      lastUpdate = Some 1000, darkMode = False, showAlert = True,
      alertMessage = join '' | '' (alerts reading_scenario)\<rparr>"

section \<open>Properties\<close>

subsection \<open>Sorting\<close>

lemma mset_insert_by: "mset (insert_by cmp x ys) = add_mset x (mset ys)"
  by (induction ys) simp_all

lemma mset_array_sort: "mset (array_sort cmp xs) = mset xs"
  by (induction xs) (simp_all add: array_sort_def mset_insert_by)

lemma set_insert_by: "set (insert_by cmp x ys) = insert x (set ys)"
  by (induction ys) auto

lemma desc_insert_by:
  "sorted_wrt newer_first ys \<Longrightarrow> sorted_wrt newer_first (insert_by by_timestamp_desc x ys)"
proof (induction ys)
  case Nil
  show ?case by simp
next
  case (Cons y ys)
  show ?case
  proof (cases "by_timestamp_desc x y \<le> 0")
    case True
    then have "timestamp y \<le> timestamp x" by (simp add: by_timestamp_desc_def)
    with Cons.prems show ?thesis using True by auto
  next
    case False
    then have "timestamp x \<le> timestamp y" by (simp add: by_timestamp_desc_def)
    with Cons show ?thesis using False by (auto simp: set_insert_by)
  qed
qed

lemma desc_array_sort: "sorted_wrt newer_first (array_sort by_timestamp_desc xs)"
  by (induction xs) (simp_all add: array_sort_def desc_insert_by)

lemma filter_insert_by_other:
  "\<not> P x \<Longrightarrow> filter P (insert_by cmp x ys) = filter P ys"
  by (induction ys) simp_all

text \<open>An inserted reading comes before every reading of its own timestamp.\<close>

lemma filter_insert_by_same:
  "sorted_wrt newer_first ys \<Longrightarrow>
   filter (\<lambda>r. timestamp r = timestamp x) (insert_by by_timestamp_desc x ys)
     = x # filter (\<lambda>r. timestamp r = timestamp x) ys"
proof (induction ys)
  case Nil
  show ?case by simp
next
  case (Cons y ys)
  show ?case
  proof (cases "by_timestamp_desc x y \<le> 0")
    case True
    then show ?thesis by simp
  next
    case False
    then have "timestamp x < timestamp y" by (simp add: by_timestamp_desc_def)
    with Cons show ?thesis using False by simp
  qed
qed

lemma stable_array_sort:
  "filter (\<lambda>r. timestamp r = t) (array_sort by_timestamp_desc xs)
     = filter (\<lambda>r. timestamp r = t) xs"
proof (induction xs)
  case Nil
  show ?case by (simp add: array_sort_def)
next
  case (Cons x xs)
  have step_eq: "array_sort by_timestamp_desc (x # xs)
      = insert_by by_timestamp_desc x (array_sort by_timestamp_desc xs)"
    by (simp add: array_sort_def)
  show ?case
  proof (cases "timestamp x = t")
    case True
    with Cons show ?thesis
      using filter_insert_by_same [OF desc_array_sort, of x xs] by (simp add: step_eq)
  next
    case False
    with Cons show ?thesis by (simp add: step_eq filter_insert_by_other)
  qed
qed

subsection \<open>The branches of \<^verbatim>\<open>fetchData\<close>\<close>

lemma data_checkAlerts: "data (checkAlerts latest st) = data st"
  by (simp add: checkAlerts_def split: option.splits)

lemma error_checkAlerts: "error (checkAlerts latest st) = error st"
  by (simp add: checkAlerts_def split: option.splits)

lemma data_ingest: "data (ingest now arr st) = array_sort by_timestamp_desc arr"
  by (simp add: ingest_def Let_def data_checkAlerts)

lemma error_ingest: "error (ingest now arr st) = None"
  by (simp add: ingest_def Let_def error_checkAlerts)

lemma ingest_Nil:
  "ingest now [] st = st\<lparr>data := [], lastUpdate := Some now, error := None\<rparr>"
  by (simp add: ingest_def array_sort_def checkAlerts_def)

lemma fetchData_array:
  "response_ok status \<Longrightarrow>
   fetchData rt now (Responded status (Inr (JArr arr))) st = (ingest now arr st)\<lparr>loading := False\<rparr>"
  by (simp add: fetchData_def fetch_try_def)

lemma fetchData_body:
  assumes "response_ok status" and "map_of props ''body'' = Some b" and "truthy (Some b)"
  shows "fetchData rt now (Responded status (Inr (JObj props))) st =
     (case json_parse rt (to_string rt b) of
        Inl msg \<Rightarrow> st\<lparr>error := Some msg, loading := False\<rparr>
      | Inr (JArr arr) \<Rightarrow> (ingest now arr st)\<lparr>loading := False\<rparr>
      | Inr _ \<Rightarrow> st\<lparr>loading := False\<rparr>)"
  using assms by (simp add: fetchData_def fetch_try_def split: sum.splits json.splits)

lemma fetchData_no_body:
  assumes "response_ok status" and "\<not> truthy (map_of props ''body'')"
  shows "fetchData rt now (Responded status (Inr (JObj props))) st = st\<lparr>loading := False\<rparr>"
  using assms by (simp add: fetchData_def fetch_try_def)

text \<open>Whatever the \<^verbatim>\<open>try\<close> block throws ends in the error cell, and the working set stays.\<close>

lemma fetchData_catches:
  "fetch_try rt now outcome st = Inl msg \<Longrightarrow>
   fetchData rt now outcome st = st\<lparr>error := Some msg, loading := False\<rparr>"
  by (simp add: fetchData_def)

text \<open>A payload that is \<^verbatim>\<open>null\<close> is thrown out by the property access of line 49.\<close>

lemma fetchData_null:
  "response_ok status \<Longrightarrow>
   fetchData rt now (Responded status (Inr JNull)) st
     = st\<lparr>error := Some null_body_message, loading := False\<rparr>"
  by (simp add: fetchData_def fetch_try_def)

lemma run_snoc: "run rt (evs @ [ev]) st = step rt ev (run rt evs st)"
  by (simp add: run_def)

subsection \<open>The normalised order\<close>

text \<open>
  Claim C5.  For every non-empty array of readings that a cycle ingests, whether it is the
  payload itself (line 44) or what the payload's \<^verbatim>\<open>body\<close> parses to (line 52), the working
  set it stores is the array sorted by \<^verbatim>\<open>timestamp\<close> in descending order, and it is a
  permutation of the input in which readings of equal timestamp keep their relative order:
  for every timestamp, the readings carrying it appear in the output as they do in the
  input.
\<close>

theorem fetchData_sorts_stably:
  assumes "arr \<noteq> []" and "response_ok status"
  shows "data (fetchData rt now (Responded status (Inr (JArr arr))) st)
           = array_sort by_timestamp_desc arr
     \<and> (map_of props ''body'' = Some b \<and> truthy (Some b)
          \<and> json_parse rt (to_string rt b) = Inr (JArr arr) \<longrightarrow>
          data (fetchData rt now (Responded status (Inr (JObj props))) st)
            = array_sort by_timestamp_desc arr)
     \<and> sorted_wrt (\<lambda>a b. timestamp b \<le> timestamp a) (array_sort by_timestamp_desc arr)
     \<and> mset (array_sort by_timestamp_desc arr) = mset arr
     \<and> (\<forall>t. filter (\<lambda>r. timestamp r = t) (array_sort by_timestamp_desc arr)
              = filter (\<lambda>r. timestamp r = t) arr)"
  using assms
  by (simp add: fetchData_array fetchData_body data_ingest desc_array_sort mset_array_sort
      stable_array_sort)

text \<open>Three readings, the first and the last with the same timestamp, once as the payload
  and once as the text in \<^verbatim>\<open>body\<close>: the newer one moves to the front and the other two keep
  their order.\<close>

theorem fetchData_sorts_stably_witness:
  "[reading_scenario, reading_later, reading_gap] \<noteq> []
   \<and> response_ok 200
   \<and> data (fetchData example_runtime_readings 5000
              (Responded 200 (Inr (JArr [reading_scenario, reading_later, reading_gap])))
              initial_state)
       = [reading_later, reading_scenario, reading_gap]
   \<and> map_of [(''body'', JStr example_body_text)] ''body'' = Some (JStr example_body_text)
   \<and> truthy (Some (JStr example_body_text))
   \<and> json_parse example_runtime_readings
        (to_string example_runtime_readings (JStr example_body_text))
       = Inr (JArr [reading_scenario, reading_later, reading_gap])
   \<and> data (fetchData example_runtime_readings 5000
              (Responded 200 (Inr (JObj [(''body'', JStr example_body_text)]))) initial_state)
       = [reading_later, reading_scenario, reading_gap]
   \<and> sorted_wrt (\<lambda>a b. timestamp b \<le> timestamp a)
        (array_sort by_timestamp_desc [reading_scenario, reading_later, reading_gap])
   \<and> mset (array_sort by_timestamp_desc [reading_scenario, reading_later, reading_gap])
       = mset [reading_scenario, reading_later, reading_gap]
   \<and> (\<forall>t. filter (\<lambda>r. timestamp r = t)
              (array_sort by_timestamp_desc [reading_scenario, reading_later, reading_gap])
          = filter (\<lambda>r. timestamp r = t) [reading_scenario, reading_later, reading_gap])"
proof -
  have ok: "response_ok 200" by (simp add: response_ok_def)
  have sorted_eq: "array_sort by_timestamp_desc [reading_scenario, reading_later, reading_gap]
      = [reading_later, reading_scenario, reading_gap]"
    by (simp add: array_sort_def by_timestamp_desc_def reading_scenario_def
        reading_later_def reading_gap_def)
  have text_ok: "truthy (Some (JStr example_body_text))"
    by (simp add: example_body_text_def)
  have parsed: "json_parse example_runtime_readings
        (to_string example_runtime_readings (JStr example_body_text))
      = Inr (JArr [reading_scenario, reading_later, reading_gap])"
    by (simp add: example_runtime_readings_def)
  show ?thesis
    using ok text_ok parsed
      fetchData_sorts_stably [where arr = "[reading_scenario, reading_later, reading_gap]"
        and status = 200 and rt = example_runtime_readings and now = 5000
        and st = initial_state and props = "[(''body'', JStr example_body_text)]"
        and b = "JStr example_body_text"]
    by (simp add: sorted_eq)
qed

subsection \<open>Failed cycles\<close>

lemma digit_value_digit: "d < 10 \<Longrightarrow> digit_value (''0123456789'' ! d) = d"
proof -
  assume "d < 10"
  then have "d \<in> {0, 1, 2, 3, 4, 5, 6, 7, 8, 9}" by auto
  then show ?thesis by (auto simp: digit_value_def)
qed

lemma read_nat_snoc: "read_nat (s @ [ch]) = 10 * read_nat s + digit_value ch"
  by (simp add: read_nat_def)

lemma read_nat_show_nat: "read_nat (show_nat n) = n"
proof (induction n rule: show_nat.induct)
  case (1 n)
  show ?case
  proof (cases "n < 10")
    case True
    then show ?thesis
      by (subst show_nat.simps) (simp add: read_nat_def digit_value_digit)
  next
    case False
    then have "read_nat (show_nat (n div 10)) = n div 10" using 1 by simp
    with False show ?thesis
      by (subst show_nat.simps) (simp add: read_nat_snoc digit_value_digit)
  qed
qed

text \<open>
  Claim C7.  Whatever the state before: when the fetch is rejected, the rejection's message
  becomes the last error; when the response has a status outside 200 to 299, the last error
  becomes the message of line 38, from which the status can be read back; and when the
  response arrives but reading its body is rejected at line 41, as when the connection
  drops, that rejection's message becomes the last error.  In all these cases nothing else
  changes but \<^verbatim>\<open>loading\<close>, so the working set stays, and the function ends with a state
  rather than an exception.  A later cycle that stores a new working set, from an array
  payload or from an array in \<^verbatim>\<open>body\<close>, leaves no last error.
\<close>

theorem fetchData_failure_recorded:
  "fetchData rt now (Rejected msg) st = st\<lparr>error := Some msg, loading := False\<rparr>
   \<and> (\<not> response_ok status \<longrightarrow>
        fetchData rt now (Responded status decoded) st
          = st\<lparr>error := Some (http_error_message status), loading := False\<rparr>)
   \<and> status_of_message (http_error_message status) = status
   \<and> (response_ok status \<longrightarrow>
        fetchData rt now (Responded status (Inl msg)) st
          = st\<lparr>error := Some msg, loading := False\<rparr>)
   \<and> (response_ok status \<longrightarrow>
        error (fetchData rt now (Responded status (Inr (JArr arr))) st) = None
        \<and> data (fetchData rt now (Responded status (Inr (JArr arr))) st)
            = array_sort by_timestamp_desc arr)
   \<and> (response_ok status \<and> map_of props ''body'' = Some b \<and> truthy (Some b)
        \<and> json_parse rt (to_string rt b) = Inr (JArr arr) \<longrightarrow>
        error (fetchData rt now (Responded status (Inr (JObj props))) st) = None
        \<and> data (fetchData rt now (Responded status (Inr (JObj props))) st)
            = array_sort by_timestamp_desc arr)"
proof -
  have thrown: "fetchData rt now (Rejected msg) st = st\<lparr>error := Some msg, loading := False\<rparr>"
    by (simp add: fetchData_def fetch_try_def)
  have status_bad: "fetchData rt now (Responded status decoded) st
      = st\<lparr>error := Some (http_error_message status), loading := False\<rparr>"
    if "\<not> response_ok status"
    using that by (simp add: fetchData_def fetch_try_def)
  have undecoded: "fetchData rt now (Responded status (Inl msg)) st
      = st\<lparr>error := Some msg, loading := False\<rparr>"
    if "response_ok status"
    using that by (simp add: fetchData_def fetch_try_def)
  have read_back: "status_of_message (http_error_message status) = status"
    by (simp add: status_of_message_def http_error_message_def read_nat_show_nat)
  show ?thesis
    using thrown status_bad undecoded read_back
    by (simp add: fetchData_array fetchData_body data_ingest error_ingest)
qed

text \<open>A rejected fetch, a 404 and a body that breaks off on the example state, then a good
  cycle on the state with the 404 recorded.\<close>

theorem fetchData_failure_recorded_witness:
  "fetchData example_runtime 5000 (Rejected ''Failed to fetch'') example_state
     = example_state\<lparr>error := Some ''Failed to fetch'', loading := False\<rparr>
   \<and> \<not> response_ok 404
   \<and> fetchData example_runtime 5000 (Responded 404 (Inr JNull)) example_state
       = example_state\<lparr>error := Some ''HTTP error! status: 404'', loading := False\<rparr>
   \<and> data (fetchData example_runtime 5000 (Responded 404 (Inr JNull)) example_state)
       = [reading_scenario]
   \<and> status_of_message ''HTTP error! status: 404'' = 404
   \<and> response_ok 200
   \<and> fetchData example_runtime 5000 (Responded 200 (Inl ''Unexpected end of JSON input''))
        example_state
       = example_state\<lparr>error := Some ''Unexpected end of JSON input'', loading := False\<rparr>
   \<and> error (fetchData example_runtime 5000 (Responded 200 (Inr (JArr [reading_later])))
        (example_state\<lparr>error := Some ''HTTP error! status: 404''\<rparr>)) = None
   \<and> data (fetchData example_runtime 5000 (Responded 200 (Inr (JArr [reading_later])))
        (example_state\<lparr>error := Some ''HTTP error! status: 404''\<rparr>)) = [reading_later]
   \<and> map_of [(''body'', JStr ''[]'')] ''body'' = Some (JStr ''[]'')
   \<and> truthy (Some (JStr ''[]''))
   \<and> json_parse example_runtime (to_string example_runtime (JStr ''[]'')) = Inr (JArr [])
   \<and> error (fetchData example_runtime 5000 (Responded 200 (Inr (JObj [(''body'', JStr ''[]'')])))
        example_state) = None"
proof -
  have ok: "response_ok 200" and bad: "\<not> response_ok 404"
    by (simp_all add: response_ok_def)
  have parsed: "json_parse example_runtime (to_string example_runtime (JStr ''[]'')) = Inr (JArr [])"
    by (simp add: example_runtime_def example_parse_def)
  have text_404: "http_error_message 404 = ''HTTP error! status: 404''"
    by (simp add: http_error_message_def show_nat.simps)
  note failed = fetchData_failure_recorded [where rt = example_runtime and now = 5000
      and msg = "''Failed to fetch''" and st = example_state and status = 404
      and decoded = "Inr JNull"]
  note broken = fetchData_failure_recorded [where rt = example_runtime and now = 5000
      and msg = "''Unexpected end of JSON input''" and st = example_state and status = 200]
  note cleared = fetchData_failure_recorded [where rt = example_runtime and now = 5000
      and st = "example_state\<lparr>error := Some ''HTTP error! status: 404''\<rparr>"
      and status = 200 and arr = "[reading_later]"]
  note by_body = fetchData_failure_recorded [where rt = example_runtime and now = 5000
      and st = example_state and status = 200 and props = "[(''body'', JStr ''[]'')]"
      and b = "JStr ''[]''" and arr = "[]"]
  show ?thesis
    using ok bad parsed failed broken cleared by_body
    by (simp add: text_404 array_sort_def example_state_def)
qed

subsection \<open>Export of an empty working set\<close>

text \<open>
  Claim C10.  When the working set is empty, \<^verbatim>\<open>exportToCSV\<close> returns at line 74: nothing is
  downloaded, not even a header line, and the state is as it was.
\<close>

theorem exportToCSV_empty:
  "data st = [] \<Longrightarrow> exportToCSV rt iso_now st = (st, None)"
  by (simp add: exportToCSV_def)

theorem exportToCSV_empty_witness:
  "data initial_state = []
   \<and> exportToCSV example_runtime ''2024-01-01T00:00:00.000Z'' initial_state
       = (initial_state, None)"
  using exportToCSV_empty [where st = initial_state and rt = example_runtime
      and iso_now = "''2024-01-01T00:00:00.000Z''"]
  by (simp add: initial_state_def)

subsection \<open>Payloads without readings\<close>

text \<open>
  Claim C1, as amended.  The claim says that a payload which normalises to an empty
  sequence leaves the working set and the last error as they were.  The code makes no
  difference between an empty and a non-empty array: for every state before, a response
  with a status in 200 to 299 whose payload is the empty array, or an object whose \<^verbatim>\<open>body\<close>
  is a string that parses to the empty array, replaces the working set by the empty
  sequence, clears the last error and stamps the update.  \<^verbatim>\<open>checkAlerts\<close> gets \<^verbatim>\<open>undefined\<close>
  and returns at line 15, so the alert flag and text stay: no alert is evaluated.
\<close>

theorem fetchData_empty_array_replaces:
  assumes "response_ok status"
  shows "fetchData rt now (Responded status (Inr (JArr []))) st
           = st\<lparr>data := [], lastUpdate := Some now, error := None, loading := False\<rparr>
     \<and> (map_of props ''body'' = Some (JStr b) \<and> b \<noteq> [] \<and> json_parse rt b = Inr (JArr []) \<longrightarrow>
          fetchData rt now (Responded status (Inr (JObj props))) st
            = st\<lparr>data := [], lastUpdate := Some now, error := None, loading := False\<rparr>)"
  using assms by (simp add: fetchData_array fetchData_body ingest_Nil)

theorem fetchData_empty_array_replaces_witness:
  "response_ok 200
   \<and> fetchData example_runtime 5000 (Responded 200 (Inr (JArr []))) example_state
       = example_state\<lparr>data := [], lastUpdate := Some 5000, error := None, loading := False\<rparr>
   \<and> map_of [(''body'', JStr ''[]'')] ''body'' = Some (JStr ''[]'')
   \<and> json_parse example_runtime ''[]'' = Inr (JArr [])
   \<and> fetchData example_runtime 5000 (Responded 200 (Inr (JObj [(''body'', JStr ''[]'')])))
        example_state
       = example_state\<lparr>data := [], lastUpdate := Some 5000, error := None, loading := False\<rparr>
   \<and> showAlert (fetchData example_runtime 5000 (Responded 200 (Inr (JArr []))) example_state)
       = showAlert example_state"
  using fetchData_empty_array_replaces [where status = 200
      and props = "[(''body'', JStr ''[]'')]" and b = "''[]''"
      and rt = example_runtime and now = 5000 and st = example_state]
  by (simp add: response_ok_def example_runtime_def example_parse_def)

text \<open>The claim as stated fails on the specification's own scenario: after the payload
  \<^verbatim>\<open>{body: "[]"}\<close>, and after the payload \<^verbatim>\<open>[]\<close>, the one reading of the example state is gone
  and so is its last error.\<close>

theorem empty_payload_changes_state:
  "data (fetchData example_runtime 5000 (Responded 200 (Inr (JObj [(''body'', JStr ''[]'')])))
      example_state) \<noteq> data example_state
   \<and> error (fetchData example_runtime 5000 (Responded 200 (Inr (JObj [(''body'', JStr ''[]'')])))
      example_state) \<noteq> error example_state
   \<and> data (fetchData example_runtime 5000 (Responded 200 (Inr (JArr []))) example_state)
      \<noteq> data example_state"
  by (simp add: fetchData_def fetch_try_def response_ok_def example_runtime_def
      example_parse_def ingest_def array_sort_def checkAlerts_def example_state_def)

text \<open>
  Claim C8, as amended.  The claim says that every payload which holds no array yields an
  empty result and stores no error.  For a response with a status in 200 to 299 the code
  does this when the payload is a boolean, a number or a string, when it is an object
  whose \<^verbatim>\<open>body\<close> is missing or falsy, and when \<^verbatim>\<open>body\<close> parses to a value that is not an
  array: then nothing changes but \<^verbatim>\<open>loading\<close>.  When \<^verbatim>\<open>JSON.parse\<close> rejects \<^verbatim>\<open>body\<close>, the
  \<^verbatim>\<open>catch\<close> of line 59 stores the message as the last error and the working set stays.
\<close>

theorem fetchData_other_payloads:
  assumes "response_ok status"
  shows "fetchData rt now (Responded status (Inr (JBool x))) st = st\<lparr>loading := False\<rparr>
   \<and> fetchData rt now (Responded status (Inr (JNum r))) st = st\<lparr>loading := False\<rparr>
   \<and> fetchData rt now (Responded status (Inr (JStr s))) st = st\<lparr>loading := False\<rparr>
   \<and> (\<not> truthy (map_of props ''body'') \<longrightarrow>
        fetchData rt now (Responded status (Inr (JObj props))) st = st\<lparr>loading := False\<rparr>)
   \<and> (map_of props ''body'' = Some b \<and> truthy (Some b)
        \<and> json_parse rt (to_string rt b) = Inr v \<and> \<not> isArray v \<longrightarrow>
        fetchData rt now (Responded status (Inr (JObj props))) st = st\<lparr>loading := False\<rparr>)
   \<and> (map_of props ''body'' = Some b \<and> truthy (Some b)
        \<and> json_parse rt (to_string rt b) = Inl msg \<longrightarrow>
        fetchData rt now (Responded status (Inr (JObj props))) st
          = st\<lparr>error := Some msg, loading := False\<rparr>)"
proof -
  have plain: "fetchData rt now (Responded status (Inr (JBool x))) st = st\<lparr>loading := False\<rparr>"
    "fetchData rt now (Responded status (Inr (JNum r))) st = st\<lparr>loading := False\<rparr>"
    "fetchData rt now (Responded status (Inr (JStr s))) st = st\<lparr>loading := False\<rparr>"
    using assms by (simp_all add: fetchData_def fetch_try_def)
  have no_array: "fetchData rt now (Responded status (Inr (JObj props))) st = st\<lparr>loading := False\<rparr>"
    if "map_of props ''body'' = Some b" "truthy (Some b)"
      "json_parse rt (to_string rt b) = Inr v" "\<not> isArray v"
    using that assms by (cases v) (simp_all add: fetchData_body)
  show ?thesis
    using assms plain no_array by (simp add: fetchData_no_body fetchData_body)
qed

theorem fetchData_other_payloads_witness:
  "response_ok 200
   \<and> fetchData example_runtime 5000 (Responded 200 (Inr (JBool True))) example_state
       = example_state\<lparr>loading := False\<rparr>
   \<and> fetchData example_runtime 5000 (Responded 200 (Inr (JNum 7))) example_state
       = example_state\<lparr>loading := False\<rparr>
   \<and> fetchData example_runtime 5000 (Responded 200 (Inr (JStr ''hello''))) example_state
       = example_state\<lparr>loading := False\<rparr>
   \<and> \<not> truthy (map_of [(''message'', JStr ''hi'')] ''body'')
   \<and> fetchData example_runtime 5000 (Responded 200 (Inr (JObj [(''message'', JStr ''hi'')])))
        example_state
       = example_state\<lparr>loading := False\<rparr>
   \<and> json_parse example_runtime (to_string example_runtime (JStr ''5'')) = Inr (JNum 5)
   \<and> \<not> isArray (JNum 5)
   \<and> fetchData example_runtime 5000 (Responded 200 (Inr (JObj [(''body'', JStr ''5'')])))
        example_state
       = example_state\<lparr>loading := False\<rparr>
   \<and> json_parse example_runtime (to_string example_runtime (JStr ''oops''))
       = Inl ''Unexpected token o in JSON at position 0''
   \<and> fetchData example_runtime 5000 (Responded 200 (Inr (JObj [(''body'', JStr ''oops'')])))
        example_state
       = example_state\<lparr>error := Some ''Unexpected token o in JSON at position 0'',
           loading := False\<rparr>"
proof -
  have ok: "response_ok 200" by (simp add: response_ok_def)
  note no_body = fetchData_other_payloads [OF ok, where rt = example_runtime and now = 5000
      and x = True and st = example_state and r = 7 and s = "''hello''"
      and props = "[(''message'', JStr ''hi'')]"]
  note number_body = fetchData_other_payloads [OF ok, where rt = example_runtime
      and now = 5000 and st = example_state and props = "[(''body'', JStr ''5'')]"
      and b = "JStr ''5''" and v = "JNum 5"]
  note bad_body = fetchData_other_payloads [OF ok, where rt = example_runtime and now = 5000
      and st = example_state and props = "[(''body'', JStr ''oops'')]" and b = "JStr ''oops''"
      and msg = "''Unexpected token o in JSON at position 0''"]
  show ?thesis
    using ok no_body number_body bad_body
    by (simp add: example_runtime_def example_parse_def)
qed

text \<open>The claim as stated fails on an object whose \<^verbatim>\<open>body\<close> is a string that is no JSON text:
  the payload holds no array, and an error is stored where there was none.\<close>

theorem unparsable_body_sets_error:
  "error (fetchData example_runtime 5000 (Responded 200 (Inr (JObj [(''body'', JStr ''oops'')])))
      initial_state) = Some ''Unexpected token o in JSON at position 0''
   \<and> error initial_state = None"
  by (simp add: fetchData_def fetch_try_def response_ok_def example_runtime_def
      example_parse_def initial_state_def)

subsection \<open>Overlapping cycles\<close>

text \<open>
  Claim C4, as amended.  The claim says that every call is tagged with a sequence number
  and that a completion older than one already applied is discarded.  \<^verbatim>\<open>fetchData\<close> carries
  no number and compares none: whenever a call completes with a status in 200 to 299 and an
  array, that array, sorted, becomes the working set, whichever call it was and whatever
  completed before.  The working set therefore reflects the call that completed last.
\<close>

theorem last_completion_wins:
  assumes "response_ok status"
  shows "data (run rt (evs @ [Complete k now (Responded status (Inr (JArr arr)))]) st)
       = array_sort by_timestamp_desc arr"
  using assms by (simp add: run_snoc fetchData_array data_ingest)

theorem last_completion_wins_witness:
  "response_ok 200
   \<and> data (run example_runtime
       ([Dispatch, Dispatch, Complete 2 6000 (Responded 200 (Inr (JArr [reading_later])))]
        @ [Complete 1 7000 (Responded 200 (Inr (JArr [reading_scenario])))]) initial_state)
     = array_sort by_timestamp_desc [reading_scenario]"
  using last_completion_wins [where status = 200 and rt = example_runtime and k = 1
      and now = 7000 and arr = "[reading_scenario]" and st = initial_state
      and evs = "[Dispatch, Dispatch,
                  Complete 2 6000 (Responded 200 (Inr (JArr [reading_later])))]"]
  by (simp add: response_ok_def)

text \<open>The specification's scenario: two calls start, the second completes first with the
  newer reading, then the first completes with the older one.  The working set ends as the
  result of the first call, not of the second.\<close>

theorem stale_completion_overwrites:
  "data (run example_runtime
       [Dispatch, Dispatch,
        Complete 2 6000 (Responded 200 (Inr (JArr [reading_later]))),
        Complete 1 7000 (Responded 200 (Inr (JArr [reading_scenario])))] initial_state)
     = [reading_scenario]
   \<and> [reading_scenario] \<noteq> array_sort by_timestamp_desc [reading_later]"
  by (simp add: run_def fetchData_array response_ok_def data_ingest array_sort_def
      reading_scenario_def reading_later_def)

subsection \<open>Reading an export back\<close>
















subsection \<open>Missing and \<^verbatim>\<open>null\<close> measurements\<close>

text \<open>Where no compared field is \<^verbatim>\<open>null\<close>, the code and the specification's tables agree;
  a missing field compares as \<^verbatim>\<open>NaN\<close> and fires nothing.\<close>

lemma alerts_agree_without_null:
  assumes "soil_moisture r \<noteq> Null" and "temperature r \<noteq> Null" and "humidity r \<noteq> Null"
  shows "alerts r = spec_alerts r"
  using assms
  by (cases "soil_moisture r"; cases "temperature r"; cases "humidity r")
     (simp_all add: alerts_def spec_alerts_def js_lt_def js_gt_def)

lemma getTrend_short: "length (data st) < 2 \<Longrightarrow> getTrend field st = spec_trend field (data st)"
  by (cases "data st" rule: list.exhaust [case_product list.exhaust])
     (auto simp: getTrend_def spec_trend_def split: list.splits)

lemma getTrend_agrees_without_null:
  assumes "data st = r0 # r1 # rest"
    and "get_field field r0 \<noteq> Null" and "get_field field r1 \<noteq> Null"
  shows "getTrend field st = spec_trend field (data st)"
  using assms
  by (cases "get_field field r0"; cases "get_field field r1")
     (simp_all add: getTrend_def spec_trend_def js_gt_def js_lt_def js_plus_def js_minus_def)

lemma calculateStats_no_readings:
  "data st = [] \<Longrightarrow>
   calculateStats rt field st = \<lparr>min_stat = Number 0, max_stat = Number 0, avg_stat = Number 0\<rparr>"
  by (simp add: calculateStats_def)

lemma calculateStats_no_values:
  assumes "data st \<noteq> []"
    and "\<forall>d\<in>set (data st). get_field field d = Null \<or> get_field field d = Undefined"
  shows "calculateStats rt field st =
     \<lparr>min_stat = Text ''Infinity'', max_stat = Text ''-Infinity'', avg_stat = Text ''NaN''\<rparr>"
proof -
  have "filter (\<lambda>v. v \<noteq> Null \<and> v \<noteq> Undefined) (map (get_field field) (data st)) = []"
    using assms(2) by (auto simp: filter_empty_conv)
  with assms(1) show ?thesis
    by (simp add: calculateStats_def math_min_def math_max_def)
qed

text \<open>
  Claim C3.  The alerts are to be exactly the rules of the table whose condition holds, and
  a field that is absent or \<^verbatim>\<open>null\<close> is never to fire its rule.  Lines 18, 20 and 21 compare
  with \<^verbatim>\<open><\<close>, which turns \<^verbatim>\<open>null\<close> into 0: a reading whose measurements are all \<^verbatim>\<open>null\<close> gets
  the alerts for low soil moisture, low temperature and low humidity, where the table
  gives none, and the alert is shown.
\<close>

theorem alerts_null_fields_example:
  "alerts reading_nulls = [msg_soil_low, msg_temp_low, msg_humidity_low]
   \<and> spec_alerts reading_nulls = []
   \<and> showAlert (checkAlerts (Some reading_nulls) initial_state) = True"
  by (simp add: alerts_def spec_alerts_def checkAlerts_def reading_nulls_def js_lt_def js_gt_def)

text \<open>
  Claim C6.  The trend is to be \<^verbatim>\<open>stable\<close> when either compared value is missing or
  \<^verbatim>\<open>null\<close>.  Lines 122 and 123 compute with \<^verbatim>\<open>null\<close> as 0: with a latest soil moisture of 50
  and a previous one of \<^verbatim>\<open>null\<close> the code answers \<^verbatim>\<open>up\<close>, since 50 exceeds 0 + 1.
\<close>

theorem getTrend_null_previous_example:
  "getTrend SoilMoisture (example_state\<lparr>data := [reading_later, reading_nulls]\<rparr>) = ''up''
   \<and> spec_trend SoilMoisture [reading_later, reading_nulls] = ''stable''"
  by (simp add: getTrend_def spec_trend_def reading_later_def reading_nulls_def
      js_gt_def js_plus_def)

text \<open>
  Claim C2.  When no reading has the field present, the statistics are to be the triple of
  zeros.  Line 99 tests the length of \<^verbatim>\<open>data\<close>, not of the filtered values: on a working set
  of one reading without soil moisture, \<^verbatim>\<open>Math.min()\<close> is \<^verbatim>\<open>Infinity\<close>, \<^verbatim>\<open>Math.max()\<close> is
  \<^verbatim>\<open>-Infinity\<close> and the average is 0 / 0, and the result holds the three strings that
  \<^verbatim>\<open>toFixed\<close> makes of them.  The same happens for humidity, which is \<^verbatim>\<open>null\<close> there.
\<close>

theorem calculateStats_field_absent_example:
  "calculateStats rt SoilMoisture (example_state\<lparr>data := [reading_gap]\<rparr>)
     = \<lparr>min_stat = Text ''Infinity'', max_stat = Text ''-Infinity'', avg_stat = Text ''NaN''\<rparr>
   \<and> calculateStats rt Humidity (example_state\<lparr>data := [reading_gap]\<rparr>)
     = \<lparr>min_stat = Text ''Infinity'', max_stat = Text ''-Infinity'', avg_stat = Text ''NaN''\<rparr>"
  by (simp add: calculateStats_def reading_gap_def math_min_def math_max_def)

end
